theory Spec2Isabelle
  imports Main "HOL-Library.Char_ord" "HOL-Library.List_Lexorder" "HOL-Library.Multiset"
begin

section \<open>Outcomes of a call\<close>

text \<open>
  A Go call in \<^verbatim>\<open>mstate/relation.go\<close> ends in one of three ways: it returns a value,
  it returns a non-nil \<^verbatim>\<open>error\<close>, or it panics. Errors are built with
  \<^verbatim>\<open>fmt.Errorf\<close> from a format and its arguments; the model keeps the format (as the
  constructor) and the arguments, not the rendered text.
\<close>

type_synonym RelationRole = string

datatype error =
    NotAMember string string
      \<comment> \<open>\<^verbatim>\<open>service %q is not a member of %q\<close>: service name, relation key\<close>
  | NoRelatedEndpoints string string
      \<comment> \<open>\<^verbatim>\<open>no endpoints of %q relate to service %q\<close>: relation key, service name\<close>
  | NotFound
      \<comment> \<open>\<^verbatim>\<open>not found\<close>\<close>
  | ErrAborted
      \<comment> \<open>\<^verbatim>\<open>txn.ErrAborted\<close>: an assertion of a transaction failed\<close>
  | AddressError string
      \<comment> \<open>an error returned by \<^verbatim>\<open>Unit.PrivateAddress\<close>\<close>
  | CannotInitialize string string error
      \<comment> \<open>\<^verbatim>\<open>cannot initialize state for unit %q in relation %q: \<close> followed by the cause\<close>
  | CannotReadSettings string string error
      \<comment> \<open>\<^verbatim>\<open>cannot read settings for unit %q in relation %q: \<close> followed by the cause\<close>

datatype panic =
    UnknownRelationRole RelationRole
      \<comment> \<open>\<^verbatim>\<open>unknown RelationRole: %q\<close>\<close>
  | IndexOutOfRange

datatype 'a result = Ok 'a | Err error | Panic panic

text \<open>
  \<^verbatim>\<open>defer trivial.ErrorContextf(&err, format, args...)\<close> prefixes a non-nil error on the
  way out and leaves every other outcome alone.
\<close>

fun ErrorContextf :: "(error \<Rightarrow> error) \<Rightarrow> 'a result \<Rightarrow> 'a result" where
  "ErrorContextf ctx (Err e) = Err (ctx e)"
| "ErrorContextf ctx r = r"

section \<open>Endpoint compatibility\<close>

definition RoleProvider :: RelationRole where "RoleProvider = ''provider''"
definition RoleRequirer :: RelationRole where "RoleRequirer = ''requirer''"
definition RolePeer :: RelationRole where "RolePeer = ''peer''"

definition counterpartRole :: "RelationRole \<Rightarrow> RelationRole result" where
  "counterpartRole r =
     (if r = RoleProvider then Ok RoleRequirer
      else if r = RoleRequirer then Ok RoleProvider
      else if r = RolePeer then Ok RolePeer
      else Panic (UnknownRelationRole r))"

text \<open>
  Modelled from the spec: \<^verbatim>\<open>charm.RelationScope\<close> is declared in the \<^verbatim>\<open>charm\<close> package;
  the scope of an endpoint is global or container.
\<close>

datatype RelationScope = ScopeGlobal | ScopeContainer

record RelationEndpoint =
  ServiceName :: string
  Interface :: string
  RelationName :: string
  RelationRole :: RelationRole
  RelationScope :: RelationScope

definition CanRelateTo :: "RelationEndpoint \<Rightarrow> RelationEndpoint \<Rightarrow> bool result" where
  "CanRelateTo e other =
     (if Interface e \<noteq> Interface other then Ok False
      else if RelationRole e = RolePeer then Ok False
      else (case counterpartRole (RelationRole e) of
              Ok c \<Rightarrow> Ok (c = RelationRole other)
            | Err x \<Rightarrow> Err x
            | Panic p \<Rightarrow> Panic p))"

text \<open>The roles of the closed enumeration.\<close>

definition valid_role :: "RelationRole \<Rightarrow> bool" where
  "valid_role r = (r = RoleProvider \<or> r = RoleRequirer \<or> r = RolePeer)"

section \<open>Relation keys\<close>

definition String_ep :: "RelationEndpoint \<Rightarrow> string" where
  "String_ep e = ServiceName e @ '':'' @ RelationName e"

text \<open>\<^verbatim>\<open>strings.Join(a, sep)\<close>.\<close>

fun Join :: "string list \<Rightarrow> string \<Rightarrow> string" where
  "Join [] sep = []"
| "Join [x] sep = x"
| "Join (x # y # ys) sep = x @ sep @ Join (y # ys) sep"

text \<open>
  \<^verbatim>\<open>sort.Strings\<close> puts the slice in increasing order; Go compares strings byte by byte,
  which is the lexicographic order on \<^typ>\<open>char list\<close>. Equal strings cannot be told
  apart, so the sorted slice is the one sorted rearrangement of the input, whatever the
  algorithm.
\<close>

definition relationKey :: "RelationEndpoint list \<Rightarrow> string" where
  "relationKey endpoints = Join (sort (map String_ep endpoints)) '' ''"

section \<open>Strings\<close>

text \<open>
  \<^verbatim>\<open>strings.Split(s, sep)\<close> at a one-byte separator, the only kind this file passes
  (\<^verbatim>\<open>"/"\<close> and \<^verbatim>\<open>"#"\<close>): cut at the first separator, keep what is before it, go on
  with what is after it; what is left when no separator remains is the last part.
\<close>

function Split :: "string \<Rightarrow> char \<Rightarrow> string list" where
  "Split s sep =
     (case dropWhile (\<lambda>c. c \<noteq> sep) s of
        [] \<Rightarrow> [s]
      | _ # rest \<Rightarrow> takeWhile (\<lambda>c. c \<noteq> sep) s # Split rest sep)"
  by pat_completeness auto
termination
proof (relation "measure (\<lambda>(s, sep). length s)")
  show "wf (measure (\<lambda>(s, sep). length s))" by simp
next
  fix s :: string and sep x rest
  assume d: "dropWhile (\<lambda>c. c \<noteq> sep) s = x # rest"
  have "length (dropWhile (\<lambda>c. c \<noteq> sep) s) \<le> length s"
    by (rule length_dropWhile_le)
  with d show "((rest, sep), (s, sep)) \<in> measure (\<lambda>(s, sep). length s)"
    by simp
qed

declare Split.simps [simp del]

text \<open>
  \<^verbatim>\<open>strconv.Itoa\<close>: the decimal form of an integer, most significant digit first, with a
  leading minus sign for a negative one.
\<close>

definition digit :: "nat \<Rightarrow> char" where
  "digit d = ''0123456789'' ! d"

fun FormatUint :: "nat \<Rightarrow> string" where
  "FormatUint n = (if n < 10 then [digit n] else FormatUint (n div 10) @ [digit (n mod 10)])"

declare FormatUint.simps [simp del]

definition Itoa :: "int \<Rightarrow> string" where
  "Itoa i = (if i < 0 then CHR ''-'' # FormatUint (nat (- i)) else FormatUint (nat i))"

section \<open>Relations\<close>

text \<open>
  Modelled from the spec: the type \<^verbatim>\<open>Life\<close> is declared in another file of the package;
  the life cycle is Alive, then Dying, then Dead.
\<close>

datatype Life = Alive | Dying | Dead

fun life_rank :: "Life \<Rightarrow> nat" where
  "life_rank Alive = 0"
| "life_rank Dying = 1"
| "life_rank Dead = 2"

record relationDoc =
  Key :: string
  RelId :: int
  Endpoints :: "RelationEndpoint list"
  Life :: Life

text \<open>
  A \<^verbatim>\<open>Relation\<close> holds a pointer to the state and its own copy of the document. The state
  is passed to the operations that use it, so the record keeps the copy only.
\<close>

record Relation =
  doc :: relationDoc

definition String_rel :: "Relation \<Rightarrow> string" where
  "String_rel r = Key (doc r)"

definition Relation_Life :: "Relation \<Rightarrow> Life" where
  "Relation_Life r = Life (doc r)"

definition Relation_Id :: "Relation \<Rightarrow> int" where
  "Relation_Id r = RelId (doc r)"

text \<open>
  The documents of a settings node map keys to values; the one value this file writes is
  an address, a string.
\<close>

type_synonym settingsDoc = "string \<rightharpoonup> string"

record relationRefDoc =
  RefKey :: string

text \<open>
  The collections of the state that this file reads and writes, each a map from document
  id to document.
\<close>

record State =
  relations :: "string \<rightharpoonup> relationDoc"
  settings :: "string \<rightharpoonup> settingsDoc"
  relationRefs :: "string \<rightharpoonup> relationRefDoc"

text \<open>
  Modelled from the spec: \<^verbatim>\<open>ensureLife\<close> is defined in another file of the package. The
  spec has the life transitions as monotonic conditional updates, each a no-op when the
  relation is already at or past the target state, and a no-op is not an error. A key
  with no document in the collection is left alone.
\<close>

definition ensureLife :: "State \<Rightarrow> string \<Rightarrow> Life \<Rightarrow> error option \<times> State" where
  "ensureLife st k life =
     (case relations st k of
        None \<Rightarrow> (None, st)
      | Some d \<Rightarrow>
          if life_rank (Life d) < life_rank life
          then (None, st\<lparr>relations := (relations st)(k \<mapsto> d\<lparr>Life := life\<rparr>)\<rparr>)
          else (None, st))"

definition Kill :: "State \<Rightarrow> Relation \<Rightarrow> error option \<times> State \<times> Relation" where
  "Kill st r =
     (case ensureLife st (Key (doc r)) Dying of
        (Some err, st') \<Rightarrow> (Some err, st', r)
      | (None, st') \<Rightarrow> (None, st', r\<lparr>doc := (doc r)\<lparr>Life := Dying\<rparr>\<rparr>))"

definition Die :: "State \<Rightarrow> Relation \<Rightarrow> error option \<times> State \<times> Relation" where
  "Die st r =
     (case ensureLife st (Key (doc r)) Dead of
        (Some err, st') \<Rightarrow> (Some err, st', r)
      | (None, st') \<Rightarrow> (None, st', r\<lparr>doc := (doc r)\<lparr>Life := Dead\<rparr>\<rparr>))"

definition Endpoint :: "Relation \<Rightarrow> string \<Rightarrow> RelationEndpoint result" where
  "Endpoint r serviceName =
     (case find (\<lambda>ep. ServiceName ep = serviceName) (Endpoints (doc r)) of
        Some ep \<Rightarrow> Ok ep
      | None \<Rightarrow> Err (NotAMember serviceName (String_rel r)))"

definition RelatedEndpoints :: "Relation \<Rightarrow> string \<Rightarrow> RelationEndpoint list result" where
  "RelatedEndpoints r serviceName =
     (case Endpoint r serviceName of
        Err e \<Rightarrow> Err e
      | Panic p \<Rightarrow> Panic p
      | Ok local \<Rightarrow>
          (case counterpartRole (RelationRole local) of
             Err e \<Rightarrow> Err e
           | Panic p \<Rightarrow> Panic p
           | Ok role \<Rightarrow>
               (let eps = filter (\<lambda>ep. RelationRole ep = role) (Endpoints (doc r))
                in if eps = [] then Err (NoRelatedEndpoints (String_rel r) serviceName)
                   else Ok eps)))"

section \<open>Relation units\<close>

text \<open>
  Modelled from the spec: the type \<^verbatim>\<open>Unit\<close> is declared in another file of the package.
  The record has the fields of its document that this file reads (its name, its service
  and the name of its principal unit, empty when it has none) and the outcome of its
  \<^verbatim>\<open>PrivateAddress\<close> method. \<^verbatim>\<open>Name\<close> and \<^verbatim>\<open>String\<close> give the name.
\<close>

record Unit =
  Name :: string
  Service :: string
  Principal :: string
  PrivateAddress :: "string result"

definition String_unit :: "Unit \<Rightarrow> string" where
  "String_unit u = Name u"

record RelationUnit =
  relation :: Relation
  unit :: Unit
  endpoint :: RelationEndpoint
  scope :: string

definition Relation_Unit :: "Relation \<Rightarrow> Unit \<Rightarrow> RelationUnit result" where
  "Relation_Unit r u =
     (case Endpoint r (Service u) of
        Err e \<Rightarrow> Err e
      | Panic p \<Rightarrow> Panic p
      | Ok ep \<Rightarrow>
          (let scope0 = [''r'', Itoa (RelId (doc r))];
               scope1 = (if RelationScope ep = ScopeContainer
                         then scope0 @ [if Principal u = [] then Name u else Principal u]
                         else scope0)
           in Ok \<lparr>relation = r, unit = u, endpoint = ep, scope = Join scope1 ''#''\<rparr>))"

definition key :: "RelationUnit \<Rightarrow> string \<Rightarrow> string result" where
  "key ru uname =
     (case Split uname CHR ''/'' of
        [] \<Rightarrow> Panic IndexOutOfRange
      | sname # _ \<Rightarrow>
          (case Endpoint (relation ru) sname of
             Err e \<Rightarrow> Err e
           | Panic p \<Rightarrow> Panic p
           | Ok ep \<Rightarrow> Ok (Join [scope ru, RelationRole ep, uname] ''#'')))"

definition UnitName :: "relationRefDoc \<Rightarrow> string result" where
  "UnitName d =
     (case Split (RefKey d) CHR ''#'' of
        [] \<Rightarrow> Panic IndexOutOfRange
      | p # ps \<Rightarrow> Ok (last (p # ps)))"

section \<open>Settings nodes\<close>

text \<open>
  Modelled from the spec: \<^verbatim>\<open>ConfigNode\<close>, \<^verbatim>\<open>newConfigNode\<close> and \<^verbatim>\<open>readConfigNode\<close> are
  defined in another file of the package. A node is a buffered view of the settings
  document at its path: a new node is empty, \<^verbatim>\<open>Set\<close> changes the buffer, \<^verbatim>\<open>Write\<close>
  makes the buffer the document at the path (the spec: the settings document is created
  or overwritten on join), \<^verbatim>\<open>Map\<close> returns the buffer. \<^verbatim>\<open>readConfigNode\<close> fills the
  buffer from the document at the path and, as the note in \<^verbatim>\<open>ReadSettings\<close> records,
  does not refuse a path that has no document.
\<close>

record ConfigNode =
  path :: string
  core :: settingsDoc

definition newConfigNode :: "string \<Rightarrow> ConfigNode" where
  "newConfigNode p = \<lparr>path = p, core = Map.empty\<rparr>"

definition Set_node :: "ConfigNode \<Rightarrow> string \<Rightarrow> string \<Rightarrow> ConfigNode" where
  "Set_node node k v = node\<lparr>core := (core node)(k \<mapsto> v)\<rparr>"

definition Write :: "State \<Rightarrow> ConfigNode \<Rightarrow> error option \<times> State" where
  "Write st node = (None, st\<lparr>settings := (settings st)(path node \<mapsto> core node)\<rparr>)"

definition readConfigNode :: "State \<Rightarrow> string \<Rightarrow> ConfigNode result" where
  "readConfigNode st p =
     (case settings st p of
        None \<Rightarrow> Ok \<lparr>path = p, core = Map.empty\<rparr>
      | Some d \<Rightarrow> Ok \<lparr>path = p, core = d\<rparr>)"

definition Map_node :: "ConfigNode \<Rightarrow> settingsDoc" where
  "Map_node node = core node"

text \<open>\<^verbatim>\<open>settings.FindId(key).Count()\<close>: the number of documents with that id.\<close>

definition Count :: "(string \<rightharpoonup> 'd) \<Rightarrow> string \<Rightarrow> nat" where
  "Count coll k = (case coll k of None \<Rightarrow> 0 | Some _ \<Rightarrow> 1)"

section \<open>Transactions\<close>

text \<open>
  The operations of \<^verbatim>\<open>mgo/txn\<close> as this file builds them. Every \<^verbatim>\<open>txn.Op\<close> here names
  the \<^verbatim>\<open>relationRefs\<close> collection, so the runner of the model works on that collection.
  By the contract of the package, the assertions of all operations are tested before any
  change, and a failed assertion aborts the transaction with \<^verbatim>\<open>ErrAborted\<close>; nothing
  else stops it: an \<^verbatim>\<open>Insert\<close> at an id that has a document and a \<^verbatim>\<open>Remove\<close> at an id
  that has none leave the collection as it is and the transaction goes on. The
  assertions \<^verbatim>\<open>txn.DocExists\<close> and \<^verbatim>\<open>txn.DocMissing\<close> are the way to require one or the
  other.
\<close>

datatype assertion = DocExists | DocMissing

record txnOp =
  DocId :: string
  Assert :: "assertion option"
  Insert :: "relationRefDoc option"
  Remove :: bool

definition assert_holds :: "(string \<rightharpoonup> relationRefDoc) \<Rightarrow> txnOp \<Rightarrow> bool" where
  "assert_holds coll op =
     (case Assert op of
        None \<Rightarrow> True
      | Some DocExists \<Rightarrow> coll (DocId op) \<noteq> None
      | Some DocMissing \<Rightarrow> coll (DocId op) = None)"

definition apply_op :: "(string \<rightharpoonup> relationRefDoc) \<Rightarrow> txnOp \<Rightarrow> (string \<rightharpoonup> relationRefDoc)" where
  "apply_op coll op =
     (case Insert op of
        Some d \<Rightarrow> (if coll (DocId op) = None then coll(DocId op \<mapsto> d) else coll)
      | None \<Rightarrow> (if Remove op then coll(DocId op := None) else coll))"

definition Run :: "State \<Rightarrow> txnOp list \<Rightarrow> error option \<times> State" where
  "Run st ops =
     (if list_all (assert_holds (relationRefs st)) ops
      then (None, st\<lparr>relationRefs := foldl apply_op (relationRefs st) ops\<rparr>)
      else (Some ErrAborted, st))"

section \<open>Joining, departing, reading settings\<close>

definition EnsureJoin :: "State \<Rightarrow> RelationUnit \<Rightarrow> unit result \<times> State" where
  "EnsureJoin st ru =
     apfst (ErrorContextf (CannotInitialize (String_unit (unit ru)) (String_rel (relation ru))))
       (case PrivateAddress (unit ru) of
          Err e \<Rightarrow> (Err e, st)
        | Panic p \<Rightarrow> (Panic p, st)
        | Ok address \<Rightarrow>
            (case key ru (Name (unit ru)) of
               Err e \<Rightarrow> (Err e, st)
             | Panic p \<Rightarrow> (Panic p, st)
             | Ok k \<Rightarrow>
                 (let node = Set_node (newConfigNode k) ''private-address'' address
                  in case Write st node of
                       (Some e, st1) \<Rightarrow> (Err e, st1)
                     | (None, st1) \<Rightarrow>
                         (case Run st1 [\<lparr>DocId = k, Assert = None,
                                          Insert = Some \<lparr>RefKey = k\<rparr>, Remove = False\<rparr>] of
                            (Some e, st2) \<Rightarrow> (Err e, st2)
                          | (None, st2) \<Rightarrow> (Ok (), st2)))))"

definition EnsureDepart :: "State \<Rightarrow> RelationUnit \<Rightarrow> unit result \<times> State" where
  "EnsureDepart st ru =
     (case key ru (Name (unit ru)) of
        Err e \<Rightarrow> (Err e, st)
      | Panic p \<Rightarrow> (Panic p, st)
      | Ok k \<Rightarrow>
          (case Run st [\<lparr>DocId = k, Assert = None, Insert = None, Remove = True\<rparr>] of
             (Some e, st1) \<Rightarrow> (Err e, st1)
           | (None, st1) \<Rightarrow> (Ok (), st1)))"

definition ReadSettings :: "State \<Rightarrow> RelationUnit \<Rightarrow> string \<Rightarrow> settingsDoc result" where
  "ReadSettings st ru uname =
     ErrorContextf (CannotReadSettings uname (String_rel (relation ru)))
       (case key ru uname of
          Err e \<Rightarrow> Err e
        | Panic p \<Rightarrow> Panic p
        | Ok k \<Rightarrow>
            if Count (settings st) k = 0 then Err NotFound
            else (case readConfigNode st k of
                    Err e \<Rightarrow> Err e
                  | Panic p \<Rightarrow> Panic p
                  | Ok node \<Rightarrow> Ok (Map_node node)))"

section \<open>Example values\<close>

text \<open>
  A relation between a provider and a requirer of one interface, a peer relation, and a
  container-scoped relation with subordinate units, used to run the operations above.
\<close>

definition ex_provider :: RelationEndpoint where
  "ex_provider = \<lparr>ServiceName = ''mysql'', Interface = ''mysql'', RelationName = ''server'',
     RelationRole = RoleProvider, RelationScope = ScopeGlobal\<rparr>"

definition ex_requirer :: RelationEndpoint where
  "ex_requirer = \<lparr>ServiceName = ''wordpress'', Interface = ''mysql'', RelationName = ''db'',
     RelationRole = RoleRequirer, RelationScope = ScopeGlobal\<rparr>"

definition ex_http :: RelationEndpoint where
  "ex_http = \<lparr>ServiceName = ''wordpress'', Interface = ''http'', RelationName = ''website'',
     RelationRole = RoleRequirer, RelationScope = ScopeGlobal\<rparr>"

definition ex_peer :: RelationEndpoint where
  "ex_peer = \<lparr>ServiceName = ''riak'', Interface = ''mysql'', RelationName = ''ring'',
     RelationRole = RolePeer, RelationScope = ScopeGlobal\<rparr>"

definition ex_relation :: Relation where
  "ex_relation = \<lparr>doc = \<lparr>Key = ''mysql:server wordpress:db'', RelId = 3,
     Endpoints = [ex_provider, ex_requirer], Life = Alive\<rparr>\<rparr>"

definition ex_peer_relation :: Relation where
  "ex_peer_relation = \<lparr>doc = \<lparr>Key = ''riak:ring'', RelId = 5,
     Endpoints = [ex_peer], Life = Alive\<rparr>\<rparr>"

definition ex_unit :: Unit where
  "ex_unit = \<lparr>Name = ''wordpress/0'', Service = ''wordpress'', Principal = [],
     PrivateAddress = Ok ''10.0.0.7''\<rparr>"

definition ex_ru :: RelationUnit where
  "ex_ru = \<lparr>relation = ex_relation, unit = ex_unit, endpoint = ex_requirer,
     scope = ''r#3''\<rparr>"

definition ex_state :: State where
  "ex_state = \<lparr>relations = [''mysql:server wordpress:db'' \<mapsto> doc ex_relation],
     settings = Map.empty, relationRefs = Map.empty\<rparr>"

definition ex_info :: RelationEndpoint where
  "ex_info = \<lparr>ServiceName = ''mysql'', Interface = ''juju-info'', RelationName = ''juju-info'',
     RelationRole = RoleProvider, RelationScope = ScopeContainer\<rparr>"

definition ex_logging :: RelationEndpoint where
  "ex_logging = \<lparr>ServiceName = ''logging'', Interface = ''juju-info'', RelationName = ''info'',
     RelationRole = RoleRequirer, RelationScope = ScopeContainer\<rparr>"

definition ex_sub_relation :: Relation where
  "ex_sub_relation = \<lparr>doc = \<lparr>Key = ''logging:info mysql:juju-info'', RelId = 4,
     Endpoints = [ex_info, ex_logging], Life = Alive\<rparr>\<rparr>"

definition ex_sub0 :: Unit where
  "ex_sub0 = \<lparr>Name = ''logging/0'', Service = ''logging'', Principal = ''mysql/0'',
     PrivateAddress = Ok ''10.0.0.8''\<rparr>"

definition ex_sub1 :: Unit where
  "ex_sub1 = \<lparr>Name = ''logging/1'', Service = ''logging'', Principal = ''mysql/1'',
     PrivateAddress = Ok ''10.0.0.9''\<rparr>"

definition ex_sub_ru0 :: RelationUnit where
  "ex_sub_ru0 = \<lparr>relation = ex_sub_relation, unit = ex_sub0, endpoint = ex_logging,
     scope = ''r#4#mysql/0''\<rparr>"

definition ex_sub_ru1 :: RelationUnit where
  "ex_sub_ru1 = \<lparr>relation = ex_sub_relation, unit = ex_sub1, endpoint = ex_logging,
     scope = ''r#4#mysql/1''\<rparr>"



text \<open>\<^verbatim>\<open>Die\<close> and then \<^verbatim>\<open>Kill\<close> on one \<^verbatim>\<open>Relation\<close> value that starts Alive.\<close>

definition ex_after_Die :: "error option \<times> State \<times> Relation" where
  "ex_after_Die = Die ex_state ex_relation"

definition ex_after_Kill :: "error option \<times> State \<times> Relation" where
  "ex_after_Kill = Kill (fst (snd ex_after_Die)) (snd (snd ex_after_Die))"

section \<open>Properties of endpoint compatibility\<close>

lemma roles_distinct:
  "RoleProvider \<noteq> RoleRequirer" "RoleProvider \<noteq> RolePeer" "RoleRequirer \<noteq> RolePeer"
  "RoleRequirer \<noteq> RoleProvider" "RolePeer \<noteq> RoleProvider" "RolePeer \<noteq> RoleRequirer"
  by (simp_all add: RoleProvider_def RoleRequirer_def RolePeer_def)

text \<open>
  C9. \<^verbatim>\<open>counterpartRole\<close> maps provider to requirer, requirer to provider and peer to peer,
  and panics on every role outside these three.
\<close>

theorem counterpartRole_spec:
  "counterpartRole RoleProvider = Ok RoleRequirer \<and>
   counterpartRole RoleRequirer = Ok RoleProvider \<and>
   counterpartRole RolePeer = Ok RolePeer \<and>
   (\<forall>r. \<not> valid_role r \<longrightarrow> counterpartRole r = Panic (UnknownRelationRole r))"
  by (simp add: counterpartRole_def valid_role_def roles_distinct)

theorem counterpartRole_spec_witness:
  "\<not> valid_role ''bogus'' \<and> counterpartRole ''bogus'' = Panic (UnknownRelationRole ''bogus'')"
proof -
  have h: "\<not> valid_role ''bogus''"
    by (simp add: valid_role_def RoleProvider_def RoleRequirer_def RolePeer_def)
  from counterpartRole_spec
  have "\<not> valid_role ''bogus'' \<longrightarrow> counterpartRole ''bogus'' = Panic (UnknownRelationRole ''bogus'')"
    by blast
  with h show ?thesis by simp
qed

text \<open>
  C1. \<^verbatim>\<open>CanRelateTo\<close> returns false when the interfaces differ and when the receiver is
  a peer. For a receiver whose role is one of the three roles, it returns false when the
  other endpoint is a peer, and with equal interfaces and no peer it returns whether the
  other role is the counterpart of the receiver's role.
\<close>

theorem CanRelateTo_spec:
  "(Interface a \<noteq> Interface b \<longrightarrow> CanRelateTo a b = Ok False) \<and>
   (RelationRole a = RolePeer \<longrightarrow> CanRelateTo a b = Ok False) \<and>
   (valid_role (RelationRole a) \<longrightarrow>
      (RelationRole b = RolePeer \<longrightarrow> CanRelateTo a b = Ok False) \<and>
      (Interface a = Interface b \<and> RelationRole a \<noteq> RolePeer \<and> RelationRole b \<noteq> RolePeer \<longrightarrow>
         CanRelateTo a b = Ok (counterpartRole (RelationRole a) = Ok (RelationRole b))))"
  by (auto simp add: CanRelateTo_def counterpartRole_def valid_role_def roles_distinct)

theorem CanRelateTo_spec_witness:
  "Interface ex_provider \<noteq> Interface ex_http \<and> CanRelateTo ex_provider ex_http = Ok False \<and>
   RelationRole ex_peer = RolePeer \<and> CanRelateTo ex_peer ex_peer = Ok False \<and>
   valid_role (RelationRole ex_provider) \<and> CanRelateTo ex_provider ex_peer = Ok False \<and>
   Interface ex_provider = Interface ex_requirer \<and>
   RelationRole ex_provider \<noteq> RolePeer \<and> RelationRole ex_requirer \<noteq> RolePeer \<and>
   CanRelateTo ex_provider ex_requirer = Ok True \<and>
   CanRelateTo ex_provider ex_provider = Ok False"
  using CanRelateTo_spec [of ex_provider ex_http] CanRelateTo_spec [of ex_peer ex_peer]
    CanRelateTo_spec [of ex_provider ex_peer] CanRelateTo_spec [of ex_provider ex_requirer]
    CanRelateTo_spec [of ex_provider ex_provider]
  by (simp add: ex_provider_def ex_http_def ex_peer_def ex_requirer_def valid_role_def
      counterpartRole_def roles_distinct)

section \<open>Properties of relation keys\<close>

lemma relationKey_mset:
  assumes "mset eps' = mset eps"
  shows "relationKey eps' = relationKey eps"
proof -
  have "mset (map String_ep eps') = mset (map String_ep eps)"
    using assms by (metis mset_map)
  then have "sort (map String_ep eps') = sort (map String_ep eps)"
    by (metis properties_for_sort sorted_sort mset_sort)
  then show ?thesis by (simp add: relationKey_def)
qed

text \<open>
  C5. The relation key is the same for every rearrangement of the endpoint list. For one
  endpoint it is the endpoint's string; for two it is the smaller string, a space, the
  larger string.
\<close>

theorem relationKey_permutation:
  "(mset eps' = mset eps \<longrightarrow> relationKey eps' = relationKey eps) \<and>
   relationKey [a] = String_ep a \<and>
   relationKey [a, b] =
     (if String_ep a \<le> String_ep b then String_ep a @ '' '' @ String_ep b
      else String_ep b @ '' '' @ String_ep a)"
proof (intro conjI impI)
  assume "mset eps' = mset eps"
  then show "relationKey eps' = relationKey eps" by (rule relationKey_mset)
next
  show "relationKey [a] = String_ep a" by (simp add: relationKey_def)
next
  show "relationKey [a, b] =
     (if String_ep a \<le> String_ep b then String_ep a @ '' '' @ String_ep b
      else String_ep b @ '' '' @ String_ep a)"
    by (simp add: relationKey_def)
qed

theorem relationKey_permutation_witness:
  "mset [ex_requirer, ex_provider] = mset [ex_provider, ex_requirer] \<and>
   relationKey [ex_requirer, ex_provider] = relationKey [ex_provider, ex_requirer] \<and>
   relationKey [ex_provider, ex_requirer] = ''mysql:server wordpress:db''"
proof -
  have h: "mset [ex_requirer, ex_provider] = mset [ex_provider, ex_requirer]"
    by simp
  have v: "relationKey [ex_provider, ex_requirer] = ''mysql:server wordpress:db''"
    by code_simp
  have p: "relationKey [ex_requirer, ex_provider] = relationKey [ex_provider, ex_requirer]"
    by (rule relationKey_permutation [THEN conjunct1, rule_format, OF h])
  from h v p show ?thesis by (intro conjI)
qed

section \<open>Properties of splitting\<close>

lemma Split_no_sep: "sep \<notin> set s \<Longrightarrow> Split s sep = [s]"
proof -
  assume "sep \<notin> set s"
  then have d: "dropWhile (\<lambda>c. c \<noteq> sep) s = []" by auto
  show ?thesis by (subst Split.simps) (simp only: d list.case)
qed

lemma Split_first: "\<exists>ps. Split s sep = takeWhile (\<lambda>c. c \<noteq> sep) s # ps"
proof (cases "dropWhile (\<lambda>c. c \<noteq> sep) s")
  case Nil
  then have "\<forall>x\<in>set s. x \<noteq> sep" by simp
  then have t: "takeWhile (\<lambda>c. c \<noteq> sep) s = s" by simp
  have "Split s sep = [takeWhile (\<lambda>c. c \<noteq> sep) s]"
    by (subst Split.simps) (simp only: Nil list.case t)
  then show ?thesis by blast
next
  case (Cons x rest)
  have "Split s sep = takeWhile (\<lambda>c. c \<noteq> sep) s # Split rest sep"
    by (subst Split.simps) (simp only: Cons list.case)
  then show ?thesis by blast
qed

lemma Split_at_sep:
  "sep \<notin> set p \<Longrightarrow> Split (p @ sep # rest) sep = p # Split rest sep"
proof -
  assume h: "sep \<notin> set p"
  then have d: "dropWhile (\<lambda>c. c \<noteq> sep) (p @ sep # rest) = sep # rest"
    by (subst dropWhile_append2) auto
  from h have t: "takeWhile (\<lambda>c. c \<noteq> sep) (p @ sep # rest) = p"
    by (subst takeWhile_append2) auto
  show ?thesis by (subst Split.simps) (simp only: d t list.case)
qed

lemma Split_not_Nil: "Split s sep \<noteq> []"
  using Split_first [of s sep] by auto

lemma last_Split: "sep \<notin> set u \<Longrightarrow> last (Split (p @ sep # u) sep) = u"
proof (induction p rule: length_induct)
  case (1 p)
  show ?case
  proof (cases "sep \<in> set p")
    case False
    with 1 show ?thesis
      by (simp add: Split_at_sep Split_no_sep)
  next
    case True
    then obtain p1 p2 where p: "p = p1 @ sep # p2" and n: "sep \<notin> set p1"
      by (meson split_list_first)
    have "length p2 < length p" using p by simp
    with 1 have ih: "last (Split (p2 @ sep # u) sep) = u" by blast
    have "Split (p @ sep # u) sep = p1 # Split (p2 @ sep # u) sep"
      using Split_at_sep [OF n, of "p2 @ sep # u"] p by simp
    with ih show ?thesis by (simp add: Split_not_Nil)
  qed
qed

section \<open>Properties of membership keys\<close>

lemma key_Ok:
  assumes "Endpoint (relation ru) (takeWhile (\<lambda>c. c \<noteq> CHR ''/'') uname) = Ok ep"
  shows "key ru uname = Ok (scope ru @ ''#'' @ RelationRole ep @ ''#'' @ uname)"
proof -
  obtain ps where "Split uname CHR ''/'' = takeWhile (\<lambda>c. c \<noteq> CHR ''/'') uname # ps"
    using Split_first by blast
  with assms show ?thesis by (simp add: key_def)
qed

lemma UnitName_last:
  assumes "CHR ''#'' \<notin> set uname"
  shows "UnitName \<lparr>RefKey = pre @ ''#'' @ uname\<rparr> = Ok uname"
proof -
  have l: "last (Split (pre @ CHR ''#'' # uname) CHR ''#'') = uname"
    using assms by (rule last_Split)
  show ?thesis
  proof (cases "Split (pre @ CHR ''#'' # uname) CHR ''#''")
    case Nil
    then show ?thesis by (simp add: Split_not_Nil)
  next
    case (Cons q qs)
    with l show ?thesis by (simp add: UnitName_def)
  qed
qed

text \<open>
  C7. For a unit name without \<^verbatim>\<open>#\<close> whose service, the part before the first \<^verbatim>\<open>/\<close>,
  has an endpoint in the relation, \<^verbatim>\<open>key\<close> returns scope, role of that endpoint and unit
  name joined by \<^verbatim>\<open>#\<close>, and \<^verbatim>\<open>UnitName\<close> of a marker with that key returns the unit name.
\<close>

theorem key_UnitName_roundtrip:
  assumes "CHR ''#'' \<notin> set uname"
    and "Endpoint (relation ru) (takeWhile (\<lambda>c. c \<noteq> CHR ''/'') uname) = Ok ep"
  shows "key ru uname = Ok (scope ru @ ''#'' @ RelationRole ep @ ''#'' @ uname) \<and>
         UnitName \<lparr>RefKey = scope ru @ ''#'' @ RelationRole ep @ ''#'' @ uname\<rparr> = Ok uname"
proof -
  have "UnitName \<lparr>RefKey = (scope ru @ ''#'' @ RelationRole ep) @ ''#'' @ uname\<rparr> = Ok uname"
    using assms(1) by (rule UnitName_last)
  with key_Ok [OF assms(2)] show ?thesis by simp
qed

theorem key_UnitName_roundtrip_witness:
  "CHR ''#'' \<notin> set ''wordpress/0'' \<and>
   Endpoint (relation ex_ru) (takeWhile (\<lambda>c. c \<noteq> CHR ''/'') ''wordpress/0'') = Ok ex_requirer \<and>
   key ex_ru ''wordpress/0'' = Ok ''r#3#requirer#wordpress/0'' \<and>
   UnitName \<lparr>RefKey = ''r#3#requirer#wordpress/0''\<rparr> = Ok ''wordpress/0''"
proof -
  have h1: "CHR ''#'' \<notin> set ''wordpress/0''" by simp
  have h2: "Endpoint (relation ex_ru) (takeWhile (\<lambda>c. c \<noteq> CHR ''/'') ''wordpress/0'') = Ok ex_requirer"
    by (simp add: Endpoint_def ex_ru_def ex_relation_def ex_provider_def ex_requirer_def)
  have s: "scope ex_ru @ ''#'' @ RelationRole ex_requirer @ ''#'' @ ''wordpress/0'' =
           ''r#3#requirer#wordpress/0''"
    by (simp add: ex_ru_def ex_requirer_def RoleRequirer_def)
  have c: "key ex_ru ''wordpress/0'' = Ok ''r#3#requirer#wordpress/0'' \<and>
           UnitName \<lparr>RefKey = ''r#3#requirer#wordpress/0''\<rparr> = Ok ''wordpress/0''"
    using key_UnitName_roundtrip [OF h1 h2] unfolding s .
  show ?thesis by (rule conjI [OF h1 conjI [OF h2 c]])
qed

section \<open>Properties of relation units\<close>

lemma Unit_scope_eq:
  assumes "Endpoint r (Service u) = Ok ep"
  shows "Relation_Unit r u = Ok \<lparr>relation = r, unit = u, endpoint = ep,
           scope = (if RelationScope ep = ScopeContainer
                    then ''r#'' @ Itoa (RelId (doc r)) @ ''#'' @
                           (if Principal u = [] then Name u else Principal u)
                    else ''r#'' @ Itoa (RelId (doc r)))\<rparr>"
  using assms by (simp add: Relation_Unit_def)

lemma Relation_Unit_OkD:
  assumes "Relation_Unit r u = Ok ru"
  shows "Endpoint r (Service u) = Ok (endpoint ru)"
  using assms by (auto simp add: Relation_Unit_def Let_def split: result.splits)

lemma Relation_Unit_scopeD:
  assumes "Relation_Unit r u = Ok ru"
  shows "scope ru = (if RelationScope (endpoint ru) = ScopeContainer
                     then ''r#'' @ Itoa (RelId (doc r)) @ ''#'' @
                            (if Principal u = [] then Name u else Principal u)
                     else ''r#'' @ Itoa (RelId (doc r)))"
proof -
  let ?s = "if RelationScope (endpoint ru) = ScopeContainer
            then ''r#'' @ Itoa (RelId (doc r)) @ ''#'' @
                   (if Principal u = [] then Name u else Principal u)
            else ''r#'' @ Itoa (RelId (doc r))"
  have "Endpoint r (Service u) = Ok (endpoint ru)"
    using assms by (rule Relation_Unit_OkD)
  from Unit_scope_eq [OF this] assms
  have "ru = \<lparr>relation = r, unit = u, endpoint = endpoint ru, scope = ?s\<rparr>"
    by simp
  then have "scope ru = scope \<lparr>relation = r, unit = u, endpoint = endpoint ru, scope = ?s\<rparr>"
    by (rule arg_cong)
  then show ?thesis by simp
qed

text \<open>
  C6. When the service of the unit has an endpoint in the relation, \<^verbatim>\<open>Unit\<close> returns a
  relation unit with that endpoint whose scope is \<^verbatim>\<open>r#\<close> and the relation id in decimal,
  followed for a container-scoped endpoint by \<^verbatim>\<open>#\<close> and the name of the principal, or the
  unit's own name when it has no principal. Two subordinates with container-scoped
  endpoints in one relation have the same scope exactly when they have the same principal.
\<close>

theorem Unit_scope:
  "(Endpoint r (Service u) = Ok ep \<longrightarrow>
      (\<exists>ru. Relation_Unit r u = Ok ru \<and> endpoint ru = ep \<and>
         scope ru = (if RelationScope ep = ScopeContainer
                     then ''r#'' @ Itoa (RelId (doc r)) @ ''#'' @
                            (if Principal u = [] then Name u else Principal u)
                     else ''r#'' @ Itoa (RelId (doc r))))) \<and>
   (Relation_Unit r u1 = Ok ru1 \<and> Relation_Unit r u2 = Ok ru2 \<and>
    RelationScope (endpoint ru1) = ScopeContainer \<and>
    RelationScope (endpoint ru2) = ScopeContainer \<and>
    Principal u1 \<noteq> [] \<and> Principal u2 \<noteq> [] \<longrightarrow>
      (scope ru1 = scope ru2) = (Principal u1 = Principal u2))"
proof (intro conjI impI)
  assume "Endpoint r (Service u) = Ok ep"
  from Unit_scope_eq [OF this]
  show "\<exists>ru. Relation_Unit r u = Ok ru \<and> endpoint ru = ep \<and>
         scope ru = (if RelationScope ep = ScopeContainer
                     then ''r#'' @ Itoa (RelId (doc r)) @ ''#'' @
                            (if Principal u = [] then Name u else Principal u)
                     else ''r#'' @ Itoa (RelId (doc r)))"
    by simp
next
  assume a: "Relation_Unit r u1 = Ok ru1 \<and> Relation_Unit r u2 = Ok ru2 \<and>
    RelationScope (endpoint ru1) = ScopeContainer \<and>
    RelationScope (endpoint ru2) = ScopeContainer \<and>
    Principal u1 \<noteq> [] \<and> Principal u2 \<noteq> []"
  then have s1: "scope ru1 = ''r#'' @ Itoa (RelId (doc r)) @ ''#'' @ Principal u1"
    using Relation_Unit_scopeD [of r u1 ru1] by simp
  from a have s2: "scope ru2 = ''r#'' @ Itoa (RelId (doc r)) @ ''#'' @ Principal u2"
    using Relation_Unit_scopeD [of r u2 ru2] by simp
  show "(scope ru1 = scope ru2) = (Principal u1 = Principal u2)"
    by (simp add: s1 s2)
qed

theorem Unit_scope_witness:
  "Relation_Unit ex_sub_relation ex_sub0 = Ok ex_sub_ru0 \<and>
   Relation_Unit ex_sub_relation ex_sub1 = Ok ex_sub_ru1 \<and>
   RelationScope (endpoint ex_sub_ru0) = ScopeContainer \<and>
   RelationScope (endpoint ex_sub_ru1) = ScopeContainer \<and>
   Principal ex_sub0 \<noteq> [] \<and> Principal ex_sub1 \<noteq> [] \<and>
   (scope ex_sub_ru0 = scope ex_sub_ru1) = (Principal ex_sub0 = Principal ex_sub1) \<and>
   scope ex_sub_ru0 = ''r#4#mysql/0'' \<and> scope ex_sub_ru1 = ''r#4#mysql/1'' \<and>
   Endpoint ex_relation (Service ex_unit) = Ok ex_requirer \<and>
   (\<exists>ru. Relation_Unit ex_relation ex_unit = Ok ru \<and> endpoint ru = ex_requirer \<and>
      scope ru = ''r#3'')"
proof -
  have h: "Relation_Unit ex_sub_relation ex_sub0 = Ok ex_sub_ru0 \<and>
     Relation_Unit ex_sub_relation ex_sub1 = Ok ex_sub_ru1 \<and>
     RelationScope (endpoint ex_sub_ru0) = ScopeContainer \<and>
     RelationScope (endpoint ex_sub_ru1) = ScopeContainer \<and>
     Principal ex_sub0 \<noteq> [] \<and> Principal ex_sub1 \<noteq> []"
    by code_simp
  have c: "(scope ex_sub_ru0 = scope ex_sub_ru1) = (Principal ex_sub0 = Principal ex_sub1)"
    by (rule Unit_scope [THEN conjunct2, rule_format, OF h])
  have v: "scope ex_sub_ru0 = ''r#4#mysql/0'' \<and> scope ex_sub_ru1 = ''r#4#mysql/1''"
    by (simp add: ex_sub_ru0_def ex_sub_ru1_def)
  have e: "Endpoint ex_relation (Service ex_unit) = Ok ex_requirer"
    by code_simp
  have i: "Itoa (RelId (doc ex_relation)) = ''3''"
    by code_simp
  have g: "RelationScope ex_requirer \<noteq> ScopeContainer"
    by (simp add: ex_requirer_def)
  have d: "\<exists>ru. Relation_Unit ex_relation ex_unit = Ok ru \<and> endpoint ru = ex_requirer \<and>
      scope ru = ''r#3''"
    using Unit_scope [THEN conjunct1, rule_format, OF e] by (simp add: i g)
  from h c v e d show ?thesis by (intro conjI) simp_all
qed

section \<open>Properties of related endpoints\<close>

text \<open>
  C10. In a relation whose one endpoint is a peer endpoint, \<^verbatim>\<open>RelatedEndpoints\<close> for the
  service of that endpoint returns the list holding that endpoint.
\<close>

theorem RelatedEndpoints_single_peer:
  assumes "Endpoints (doc r) = [ep]" and "RelationRole ep = RolePeer"
  shows "RelatedEndpoints r (ServiceName ep) = Ok [ep]"
  using assms by (simp add: RelatedEndpoints_def Endpoint_def counterpartRole_def roles_distinct)

theorem RelatedEndpoints_single_peer_witness:
  "Endpoints (doc ex_peer_relation) = [ex_peer] \<and> RelationRole ex_peer = RolePeer \<and>
   RelatedEndpoints ex_peer_relation ''riak'' = Ok [ex_peer]"
proof -
  have h1: "Endpoints (doc ex_peer_relation) = [ex_peer]"
    by (simp add: ex_peer_relation_def)
  have h2: "RelationRole ex_peer = RolePeer"
    by (simp add: ex_peer_def)
  have n: "ServiceName ex_peer = ''riak''"
    by (simp add: ex_peer_def)
  have c: "RelatedEndpoints ex_peer_relation ''riak'' = Ok [ex_peer]"
    using RelatedEndpoints_single_peer [OF h1 h2] unfolding n .
  show ?thesis by (rule conjI [OF h1 conjI [OF h2 c]])
qed

section \<open>Properties of reading settings\<close>

text \<open>
  C8. When the service of the named unit has an endpoint in the relation and the settings
  collection has no document at the unit's key, \<^verbatim>\<open>ReadSettings\<close> returns the error
  \<^verbatim>\<open>not found\<close> with its context, whatever the membership markers are. When the service
  has no endpoint in the relation it returns the error of \<^verbatim>\<open>Endpoint\<close> with the same
  context, a different error.
\<close>

theorem ReadSettings_not_found:
  "(Endpoint (relation ru) (takeWhile (\<lambda>c. c \<noteq> CHR ''/'') uname) = Ok ep \<and>
    settings st (scope ru @ ''#'' @ RelationRole ep @ ''#'' @ uname) = None \<longrightarrow>
      ReadSettings (st\<lparr>relationRefs := refs\<rparr>) ru uname =
        Err (CannotReadSettings uname (String_rel (relation ru)) NotFound)) \<and>
   (find (\<lambda>e. ServiceName e = takeWhile (\<lambda>c. c \<noteq> CHR ''/'') uname)
         (Endpoints (doc (relation ru))) = None \<longrightarrow>
      ReadSettings st ru uname =
        Err (CannotReadSettings uname (String_rel (relation ru))
               (NotAMember (takeWhile (\<lambda>c. c \<noteq> CHR ''/'') uname) (String_rel (relation ru))))) \<and>
   NotFound \<noteq> NotAMember (takeWhile (\<lambda>c. c \<noteq> CHR ''/'') uname) (String_rel (relation ru))"
proof (intro conjI impI)
  assume a: "Endpoint (relation ru) (takeWhile (\<lambda>c. c \<noteq> CHR ''/'') uname) = Ok ep \<and>
    settings st (scope ru @ ''#'' @ RelationRole ep @ ''#'' @ uname) = None"
  then have "key ru uname = Ok (scope ru @ ''#'' @ RelationRole ep @ ''#'' @ uname)"
    by (simp add: key_Ok)
  with a show "ReadSettings (st\<lparr>relationRefs := refs\<rparr>) ru uname =
        Err (CannotReadSettings uname (String_rel (relation ru)) NotFound)"
    by (simp add: ReadSettings_def Count_def)
next
  let ?sname = "takeWhile (\<lambda>c. c \<noteq> CHR ''/'') uname"
  assume a: "find (\<lambda>e. ServiceName e = ?sname) (Endpoints (doc (relation ru))) = None"
  obtain ps where "Split uname CHR ''/'' = ?sname # ps"
    using Split_first by blast
  with a have "key ru uname = Err (NotAMember ?sname (String_rel (relation ru)))"
    by (simp add: key_def Endpoint_def)
  then show "ReadSettings st ru uname =
        Err (CannotReadSettings uname (String_rel (relation ru))
               (NotAMember ?sname (String_rel (relation ru))))"
    by (simp add: ReadSettings_def)
next
  show "NotFound \<noteq> NotAMember (takeWhile (\<lambda>c. c \<noteq> CHR ''/'') uname) (String_rel (relation ru))"
    by simp
qed

theorem ReadSettings_not_found_witness:
  "Endpoint (relation ex_ru) (takeWhile (\<lambda>c. c \<noteq> CHR ''/'') ''wordpress/1'') = Ok ex_requirer \<and>
   settings ex_state (scope ex_ru @ ''#'' @ RelationRole ex_requirer @ ''#'' @ ''wordpress/1'') = None \<and>
   ReadSettings (ex_state\<lparr>relationRefs := [''r#3#provider#mysql/0'' \<mapsto> \<lparr>RefKey = ''r#3#provider#mysql/0''\<rparr>]\<rparr>)
       ex_ru ''wordpress/1'' =
     Err (CannotReadSettings ''wordpress/1'' ''mysql:server wordpress:db'' NotFound) \<and>
   find (\<lambda>e. ServiceName e = takeWhile (\<lambda>c. c \<noteq> CHR ''/'') ''haproxy/0'')
        (Endpoints (doc (relation ex_ru))) = None \<and>
   ReadSettings ex_state ex_ru ''haproxy/0'' =
     Err (CannotReadSettings ''haproxy/0'' ''mysql:server wordpress:db''
            (NotAMember ''haproxy'' ''mysql:server wordpress:db''))"
proof -
  have h1: "Endpoint (relation ex_ru) (takeWhile (\<lambda>c. c \<noteq> CHR ''/'') ''wordpress/1'') = Ok ex_requirer \<and>
     settings ex_state (scope ex_ru @ ''#'' @ RelationRole ex_requirer @ ''#'' @ ''wordpress/1'') = None"
    by (simp add: Endpoint_def ex_ru_def ex_relation_def ex_provider_def ex_requirer_def
        ex_state_def)
  have h2: "find (\<lambda>e. ServiceName e = takeWhile (\<lambda>c. c \<noteq> CHR ''/'') ''haproxy/0'')
        (Endpoints (doc (relation ex_ru))) = None"
    by (simp add: ex_ru_def ex_relation_def ex_provider_def ex_requirer_def)
  have r: "String_rel (relation ex_ru) = ''mysql:server wordpress:db''"
    by (simp add: String_rel_def ex_ru_def ex_relation_def)
  have t: "takeWhile (\<lambda>c. c \<noteq> CHR ''/'') ''haproxy/0'' = ''haproxy''"
    by simp
  have c1: "ReadSettings (ex_state\<lparr>relationRefs := [''r#3#provider#mysql/0'' \<mapsto> \<lparr>RefKey = ''r#3#provider#mysql/0''\<rparr>]\<rparr>)
       ex_ru ''wordpress/1'' =
     Err (CannotReadSettings ''wordpress/1'' ''mysql:server wordpress:db'' NotFound)"
    using ReadSettings_not_found [THEN conjunct1, rule_format, OF h1] unfolding r .
  have c2: "ReadSettings ex_state ex_ru ''haproxy/0'' =
     Err (CannotReadSettings ''haproxy/0'' ''mysql:server wordpress:db''
            (NotAMember (takeWhile (\<lambda>c. c \<noteq> CHR ''/'') ''haproxy/0'') ''mysql:server wordpress:db''))"
    using ReadSettings_not_found [THEN conjunct2, THEN conjunct1, rule_format, OF h2]
    unfolding r .
  from c2 have c3: "ReadSettings ex_state ex_ru ''haproxy/0'' =
     Err (CannotReadSettings ''haproxy/0'' ''mysql:server wordpress:db''
            (NotAMember ''haproxy'' ''mysql:server wordpress:db''))"
    by (simp only: t)
  show ?thesis
    by (rule conjI [OF h1 [THEN conjunct1] conjI [OF h1 [THEN conjunct2]
          conjI [OF c1 conjI [OF h2 c3]]]])
qed

section \<open>Properties of the life cycle\<close>

lemma ensureLife_no_error: "fst (ensureLife st k life) = None"
  by (simp add: ensureLife_def split: option.splits)

lemma ensureLife_store_forward:
  assumes "relations st k = Some d"
  shows "\<exists>d'. relations (snd (ensureLife st k life)) k = Some d' \<and>
           life_rank (Life d) \<le> life_rank (Life d') \<and>
           Life d' = (if life_rank (Life d) < life_rank life then life else Life d)"
  using assms by (simp add: ensureLife_def)

lemma Kill_reports_Dying: "Relation_Life (snd (snd (Kill st r))) = Dying"
  by (simp add: Kill_def ensureLife_def Relation_Life_def split: option.splits)

text \<open>
  C2. On a relation that is Alive in the state and in the \<^verbatim>\<open>Relation\<close> value, \<^verbatim>\<open>Die\<close>
  returns no error and the value reports Dead; \<^verbatim>\<open>Kill\<close> on that value then returns no
  error, the document in the state stays Dead, and the value reports Dying.
\<close>

theorem Kill_after_Die_reports_Dying:
  "Relation_Life ex_relation = Alive \<and>
   fst ex_after_Die = None \<and>
   Relation_Life (snd (snd ex_after_Die)) = Dead \<and>
   fst ex_after_Kill = None \<and>
   map_option Life (relations (fst (snd ex_after_Kill)) (Key (doc ex_relation))) = Some Dead \<and>
   Relation_Life (snd (snd ex_after_Kill)) = Dying"
  by (simp add: ex_after_Kill_def ex_after_Die_def Kill_def Die_def ensureLife_def
      Relation_Life_def ex_relation_def ex_state_def)

section \<open>Properties of joining and departing\<close>

lemma Run_insert:
  "Run st [\<lparr>DocId = k, Assert = None, Insert = Some d, Remove = False\<rparr>] =
     (None, st\<lparr>relationRefs :=
        (if relationRefs st k = None then (relationRefs st)(k \<mapsto> d) else relationRefs st)\<rparr>)"
  by (simp add: Run_def assert_holds_def apply_op_def)

lemma Run_remove:
  "Run st [\<lparr>DocId = k, Assert = None, Insert = None, Remove = True\<rparr>] =
     (None, st\<lparr>relationRefs := (relationRefs st)(k := None)\<rparr>)"
  by (simp add: Run_def assert_holds_def apply_op_def)

lemma EnsureJoin_Ok:
  assumes "PrivateAddress (unit ru) = Ok address" and "key ru (Name (unit ru)) = Ok k"
  shows "EnsureJoin st ru =
     (Ok (), st\<lparr>settings := (settings st)(k \<mapsto> [''private-address'' \<mapsto> address]),
               relationRefs :=
                 (if relationRefs st k = None then (relationRefs st)(k \<mapsto> \<lparr>RefKey = k\<rparr>)
                  else relationRefs st)\<rparr>)"
  using assms
  by (cases "relationRefs st k")
    (simp_all add: EnsureJoin_def Write_def Set_node_def newConfigNode_def Run_insert Let_def)



lemma EnsureDepart_Ok:
  assumes "key ru (Name (unit ru)) = Ok k"
  shows "EnsureDepart st ru = (Ok (), st\<lparr>relationRefs := (relationRefs st)(k := None)\<rparr>)"
  using assms by (simp add: EnsureDepart_def Run_remove)

lemma EnsureDepart_settings: "settings (snd (EnsureDepart st ru)) = settings st"
  by (cases "key ru (Name (unit ru))") (simp_all add: EnsureDepart_def Run_remove)

lemma ReadSettings_Ok:
  assumes "key ru uname = Ok k" and "settings st k = Some m"
  shows "ReadSettings st ru uname = Ok m"
  using assms by (simp add: ReadSettings_def Count_def readConfigNode_def Map_node_def)

lemma ex_ru_key: "key ex_ru (Name (unit ex_ru)) = Ok ''r#3#requirer#wordpress/0''"
proof -
  have "Endpoint (relation ex_ru) (takeWhile (\<lambda>c. c \<noteq> CHR ''/'') ''wordpress/0'') = Ok ex_requirer"
    by (simp add: Endpoint_def ex_ru_def ex_relation_def ex_provider_def ex_requirer_def)
  from key_Ok [OF this] show ?thesis
    by (simp add: ex_ru_def ex_unit_def ex_requirer_def RoleRequirer_def)
qed

lemma ex_ru_address: "PrivateAddress (unit ex_ru) = Ok ''10.0.0.7''"
  by (simp add: ex_ru_def ex_unit_def)

text \<open>
  C3. \<^verbatim>\<open>EnsureDepart\<close> leaves the settings collection as it is. When the key of the unit
  resolves, no marker is at that key after \<^verbatim>\<open>EnsureJoin\<close> and then \<^verbatim>\<open>EnsureDepart\<close>. When
  the private address resolves too, both calls return no error, the settings document
  that \<^verbatim>\<open>EnsureJoin\<close> wrote at the key holds the address, is still there after
  \<^verbatim>\<open>EnsureDepart\<close>, and \<^verbatim>\<open>ReadSettings\<close> returns it.
\<close>

theorem EnsureJoin_EnsureDepart:
  "settings (snd (EnsureDepart st' ru)) = settings st' \<and>
   (key ru (Name (unit ru)) = Ok k \<longrightarrow>
      relationRefs (snd (EnsureDepart (snd (EnsureJoin st ru)) ru)) k = None) \<and>
   (PrivateAddress (unit ru) = Ok address \<and> key ru (Name (unit ru)) = Ok k \<longrightarrow>
      (\<exists>st1 st2 m. EnsureJoin st ru = (Ok (), st1) \<and> EnsureDepart st1 ru = (Ok (), st2) \<and>
         relationRefs st2 k = None \<and>
         settings st1 k = Some m \<and> m ''private-address'' = Some address \<and>
         settings st2 = settings st1 \<and>
         ReadSettings st2 ru (Name (unit ru)) = Ok m))"
proof (intro conjI impI)
  show "settings (snd (EnsureDepart st' ru)) = settings st'"
    by (rule EnsureDepart_settings)
next
  assume "key ru (Name (unit ru)) = Ok k"
  then show "relationRefs (snd (EnsureDepart (snd (EnsureJoin st ru)) ru)) k = None"
    by (simp add: EnsureDepart_Ok)
next
  assume a: "PrivateAddress (unit ru) = Ok address \<and> key ru (Name (unit ru)) = Ok k"
  let ?m = "[''private-address'' \<mapsto> address]"
  let ?st1 = "st\<lparr>settings := (settings st)(k \<mapsto> ?m),
                  relationRefs :=
                    (if relationRefs st k = None then (relationRefs st)(k \<mapsto> \<lparr>RefKey = k\<rparr>)
                     else relationRefs st)\<rparr>"
  let ?st2 = "?st1\<lparr>relationRefs := (relationRefs ?st1)(k := None)\<rparr>"
  from a have j: "EnsureJoin st ru = (Ok (), ?st1)" by (simp add: EnsureJoin_Ok)
  from a have d: "EnsureDepart ?st1 ru = (Ok (), ?st2)" by (simp add: EnsureDepart_Ok)
  have s: "settings ?st2 k = Some ?m" by simp
  from a have r: "ReadSettings ?st2 ru (Name (unit ru)) = Ok ?m"
    using ReadSettings_Ok [of ru "Name (unit ru)" k ?st2 ?m] s by simp
  have "EnsureJoin st ru = (Ok (), ?st1) \<and> EnsureDepart ?st1 ru = (Ok (), ?st2) \<and>
         relationRefs ?st2 k = None \<and>
         settings ?st1 k = Some ?m \<and> ?m ''private-address'' = Some address \<and>
         settings ?st2 = settings ?st1 \<and>
         ReadSettings ?st2 ru (Name (unit ru)) = Ok ?m"
    using j d r by simp
  then show "\<exists>st1 st2 m. EnsureJoin st ru = (Ok (), st1) \<and> EnsureDepart st1 ru = (Ok (), st2) \<and>
         relationRefs st2 k = None \<and>
         settings st1 k = Some m \<and> m ''private-address'' = Some address \<and>
         settings st2 = settings st1 \<and>
         ReadSettings st2 ru (Name (unit ru)) = Ok m"
    by blast
qed

theorem EnsureJoin_EnsureDepart_witness:
  "key ex_ru (Name (unit ex_ru)) = Ok ''r#3#requirer#wordpress/0'' \<and>
   PrivateAddress (unit ex_ru) = Ok ''10.0.0.7'' \<and>
   relationRefs (snd (EnsureDepart (snd (EnsureJoin ex_state ex_ru)) ex_ru))
     ''r#3#requirer#wordpress/0'' = None \<and>
   (\<exists>st1 st2 m. EnsureJoin ex_state ex_ru = (Ok (), st1) \<and>
      EnsureDepart st1 ex_ru = (Ok (), st2) \<and>
      relationRefs st2 ''r#3#requirer#wordpress/0'' = None \<and>
      settings st1 ''r#3#requirer#wordpress/0'' = Some m \<and>
      m ''private-address'' = Some ''10.0.0.7'' \<and>
      settings st2 = settings st1 \<and>
      ReadSettings st2 ex_ru (Name (unit ex_ru)) = Ok m)"
proof -
  note t = EnsureJoin_EnsureDepart [where st = ex_state and st' = ex_state and ru = ex_ru
      and k = "''r#3#requirer#wordpress/0''" and address = "''10.0.0.7''"]
  have c1: "relationRefs (snd (EnsureDepart (snd (EnsureJoin ex_state ex_ru)) ex_ru))
     ''r#3#requirer#wordpress/0'' = None"
    by (rule t [THEN conjunct2, THEN conjunct1, rule_format, OF ex_ru_key])
  have c2: "\<exists>st1 st2 m. EnsureJoin ex_state ex_ru = (Ok (), st1) \<and>
      EnsureDepart st1 ex_ru = (Ok (), st2) \<and>
      relationRefs st2 ''r#3#requirer#wordpress/0'' = None \<and>
      settings st1 ''r#3#requirer#wordpress/0'' = Some m \<and>
      m ''private-address'' = Some ''10.0.0.7'' \<and>
      settings st2 = settings st1 \<and>
      ReadSettings st2 ex_ru (Name (unit ex_ru)) = Ok m"
    by (rule t [THEN conjunct2, THEN conjunct2, rule_format,
          OF conjI [OF ex_ru_address ex_ru_key]])
  show ?thesis by (rule conjI [OF ex_ru_key conjI [OF ex_ru_address conjI [OF c1 c2]]])
qed




end
